theory Spec2Isabelle
  imports Main "HOL-Library.AList" "HOL-Library.Sublist"
begin

section \<open>Data model\<close>

text \<open>
  The values of a decoded remote response (\<^verbatim>\<open>response.json()\<close>). A dictionary is an
  association list in insertion order. Fractional numbers are outside the model.
\<close>

datatype json =
    JNull
  | JBool bool
  | JInt int
  | JStr string
  | JList "json list"
  | JObj "(string \<times> json) list"

text \<open>The exceptions the modelled code can meet, as values.\<close>

datatype error =
    KeyError string
  | TypeError
  | AttributeError
  | OperationalError
  | DatabaseError
  | ConnectionError
  | JSONDecodeError
  | ValueError
  | UnboundLocalError
  | NameError

text \<open>
  A table (\<^verbatim>\<open>pd.DataFrame\<close>): the column labels and the rows, each row holding one cell per
  column, in column order.
\<close>

record dataframe =
  df_columns :: "string list"
  df_rows :: "json list list"

text \<open>\<^verbatim>\<open>df.shape[0]\<close>: the number of rows.\<close>

definition shape0 :: "dataframe \<Rightarrow> nat" where
  "shape0 df = length (df_rows df)"

fun index_of :: "string \<Rightarrow> string list \<Rightarrow> nat option" where
  "index_of c [] = None"
| "index_of c (d # ds) = (if c = d then Some 0 else map_option Suc (index_of c ds))"

definition cell :: "json list \<Rightarrow> nat \<Rightarrow> json" where
  "cell r i = (if i < length r then r ! i else JNull)"

text \<open>\<^verbatim>\<open>df[c]\<close>: the column labelled \<open>c\<close>, top to bottom; \<^verbatim>\<open>KeyError\<close> when no column has the label.\<close>

definition getitem :: "dataframe \<Rightarrow> string \<Rightarrow> error + json list" where
  "getitem df c =
     (case index_of c (df_columns df) of
        None \<Rightarrow> Inl (KeyError c)
      | Some i \<Rightarrow> Inr (map (\<lambda>r. cell r i) (df_rows df)))"

text \<open>
  \<^verbatim>\<open>a.equals(b)\<close> on tables and on columns: same shape, same labels, same cells at the same
  places.
\<close>

definition df_equals :: "dataframe \<Rightarrow> dataframe \<Rightarrow> bool" where
  "df_equals a b = (df_columns a = df_columns b \<and> df_rows a = df_rows b)"

definition series_equals :: "json list \<Rightarrow> json list \<Rightarrow> bool" where
  "series_equals xs ys = (xs = ys)"

text \<open>A table set: table name to table, in insertion order (a Python \<^verbatim>\<open>dict\<close>).\<close>

type_synonym tables = "(string \<times> dataframe) list"

text \<open>
  The persisted store behind an open connection: the tables it holds, by name. The two
  queries \<^verbatim>\<open>check_for_updates\<close> sends, and the lines the operations print.
\<close>

type_synonym store = "(string \<times> dataframe) list"

datatype query = TableExists string | SelectAll string

datatype line =
    ErrorCheckingForUpdates error
  | NoUpdatesAvailable
  | AllUpToDate
  | UpdatingTables "string list"
  | FailedToFetch
  | ErrorLastGameweek error
  | ErrorProcessing string error
  | FailedToRetrieve nat

section \<open>Change detection: \<^verbatim>\<open>check_for_updates\<close>\<close>

text \<open>Lines 179 to 187: the comparison rule of one table that exists in the store.\<close>

definition compare_table :: "string \<Rightarrow> dataframe \<Rightarrow> dataframe \<Rightarrow> error + bool" where
  "compare_table table_name new_df existing_df =
     (if table_name = ''game_weeks'' then Inr (\<not> df_equals new_df existing_df)
      else if table_name = ''football_players'' then
        (case getitem new_df ''total_points'' of
           Inl e \<Rightarrow> Inl e
         | Inr new_points \<Rightarrow>
             (case getitem existing_df ''total_points'' of
                Inl e \<Rightarrow> Inl e
              | Inr existing_points \<Rightarrow> Inr (\<not> series_equals new_points existing_points)))
      else Inr (shape0 new_df \<noteq> shape0 existing_df))"

text \<open>
  Lines 164 to 187: the loop over the fetched tables. It carries the verdicts assigned so far
  and the queries sent so far; an exception ends it.
\<close>

fun check_tables ::
  "store \<Rightarrow> tables \<Rightarrow> (string \<times> bool) list \<Rightarrow> query list
     \<Rightarrow> (error + (string \<times> bool) list) \<times> query list" where
  "check_tables conn [] updates_needed qs = (Inr updates_needed, qs)"
| "check_tables conn ((table_name, new_df) # rest) updates_needed qs =
     (case map_of conn table_name of
        None \<Rightarrow>
          check_tables conn rest (AList.update table_name True updates_needed)
            (qs @ [TableExists table_name])
      | Some existing_df \<Rightarrow>
          (case compare_table table_name new_df existing_df of
             Inl e \<Rightarrow> (Inl e, qs @ [TableExists table_name, SelectAll table_name])
           | Inr v \<Rightarrow>
               check_tables conn rest (AList.update table_name v updates_needed)
                 (qs @ [TableExists table_name, SelectAll table_name])))"

text \<open>
  Lines 150 to 193. \<open>connect\<close> is the outcome of \<^verbatim>\<open>sqlite3.connect\<close> and \<open>fetch\<close> the outcome
  of the call \<^verbatim>\<open>self.get_fpl_data()\<close> at line 160 (an exception, \<^verbatim>\<open>None\<close>, or a table set).
  The result is the returned verdict set, the lines printed and the queries sent to the store.
  What the call at line 160 yields in the class as written is \<open>self_get_fpl_data\<close> below.
\<close>

definition check_for_updates ::
  "error + store \<Rightarrow> error + tables option
     \<Rightarrow> (string \<times> bool) list \<times> line list \<times> query list" where
  "check_for_updates connect fetch =
     (case connect of
        Inl e \<Rightarrow> ([], [ErrorCheckingForUpdates e], [])
      | Inr conn \<Rightarrow>
          (case fetch of
             Inl e \<Rightarrow> ([], [ErrorCheckingForUpdates e], [])
           | Inr None \<Rightarrow> ([], [], [])
           | Inr (Some []) \<Rightarrow> ([], [], [])
           | Inr (Some (t # ts)) \<Rightarrow>
               (case check_tables conn (t # ts) [] [] of
                  (Inl e, qs) \<Rightarrow> ([], [ErrorCheckingForUpdates e], qs)
                | (Inr updates_needed, qs) \<Rightarrow> (updates_needed, [], qs))))"

text \<open>The verdict of one fetched table against the store, outside the loop.\<close>

definition verdict :: "store \<Rightarrow> string \<Rightarrow> dataframe \<Rightarrow> error + bool" where
  "verdict conn table_name new_df =
     (case map_of conn table_name of
        None \<Rightarrow> Inr True
      | Some existing_df \<Rightarrow> compare_table table_name new_df existing_df)"

section \<open>Synchronisation: \<^verbatim>\<open>sync_database\<close>\<close>

text \<open>
  Lines 206 and 207: the candidate names (\<^verbatim>\<open>specific_tables if specific_tables else
  updates.keys()\<close>) filtered by \<^verbatim>\<open>updates.get(table, False)\<close>.
\<close>

definition tables_needing_update :: "string list option \<Rightarrow> (string \<times> bool) list \<Rightarrow> string list" where
  "tables_needing_update specific_tables updates =
     (let tables_to_update =
            (case specific_tables of
               None \<Rightarrow> map fst updates
             | Some [] \<Rightarrow> map fst updates
             | Some (t # ts) \<Rightarrow> t # ts)
      in filter (\<lambda>table. case map_of updates table of None \<Rightarrow> False | Some v \<Rightarrow> v)
           tables_to_update)"

text \<open>Line 222: the dictionary comprehension; \<^verbatim>\<open>new_data[table]\<close> raises on a missing name.\<close>

fun build_update_dict :: "tables \<Rightarrow> string list \<Rightarrow> tables \<Rightarrow> error + tables" where
  "build_update_dict new_data [] acc = Inr acc"
| "build_update_dict new_data (t # ts) acc =
     (case map_of new_data t of
        None \<Rightarrow> Inl (KeyError t)
      | Some df \<Rightarrow> build_update_dict new_data ts (AList.update t df acc))"

text \<open>
  What a call of \<^verbatim>\<open>sync_database\<close> leaves behind: the exception that escaped it (if any),
  the persisted store as the next connection finds it, the lines printed, and the dictionary
  \<^verbatim>\<open>update_dict\<close> as it stands when the body ends.
\<close>

record sync_outcome =
  raised :: "error option"
  persisted :: "error + store"
  printed :: "line list"
  update_dict :: tables

text \<open>
  Lines 195 to 226. \<open>fetch\<close> is the outcome of the fetch inside \<^verbatim>\<open>check_for_updates\<close>,
  \<open>refetch\<close> the outcome of the second fetch at line 216. The body has no statement that
  writes to the store: the call that would save \<^verbatim>\<open>update_dict\<close> is commented out (lines 225
  and 226), as is the method it names (lines 125 to 148).
\<close>

definition sync_database ::
  "error + store \<Rightarrow> error + tables option \<Rightarrow> error + tables option \<Rightarrow> string list option
     \<Rightarrow> sync_outcome" where
  "sync_database connect fetch refetch specific_tables =
     (case check_for_updates connect fetch of
        (updates, out, qs) \<Rightarrow>
          if updates = [] then
            \<lparr>raised = None, persisted = connect, printed = out @ [NoUpdatesAvailable],
             update_dict = []\<rparr>
          else
            (case tables_needing_update specific_tables updates of
               [] \<Rightarrow>
                 \<lparr>raised = None, persisted = connect, printed = out @ [AllUpToDate],
                  update_dict = []\<rparr>
             | t # ts \<Rightarrow>
                 (case refetch of
                    Inl e \<Rightarrow>
                      \<lparr>raised = Some e, persisted = connect,
                       printed = out @ [UpdatingTables (t # ts)], update_dict = []\<rparr>
                  | Inr None \<Rightarrow>
                      \<lparr>raised = None, persisted = connect,
                       printed = out @ [UpdatingTables (t # ts), FailedToFetch],
                       update_dict = []\<rparr>
                  | Inr (Some []) \<Rightarrow>
                      \<lparr>raised = None, persisted = connect,
                       printed = out @ [UpdatingTables (t # ts), FailedToFetch],
                       update_dict = []\<rparr>
                  | Inr (Some (d # ds)) \<Rightarrow>
                      (case build_update_dict (d # ds) (t # ts) [] of
                         Inl e \<Rightarrow>
                           \<lparr>raised = Some e, persisted = connect,
                            printed = out @ [UpdatingTables (t # ts)], update_dict = []\<rparr>
                       | Inr ud \<Rightarrow>
                           \<lparr>raised = None, persisted = connect,
                            printed = out @ [UpdatingTables (t # ts)], update_dict = ud\<rparr>))))"

section \<open>Gameweek accessor: \<^verbatim>\<open>get_last_updated_gameweek\<close>\<close>

text \<open>
  The query of line 233 reads two columns of the persisted \<^verbatim>\<open>game_weeks\<close> table. Its rows
  are taken as the data model types them: an integer identifier and a boolean \<^verbatim>\<open>finished\<close>
  flag (stored as 1 and 0).
\<close>

record gameweek =
  gw_id :: int
  gw_finished :: bool

text \<open>
  \<^verbatim>\<open>SELECT MAX(id) as last_gw FROM game_weeks WHERE finished = 1\<close>: the largest identifier
  among the rows that pass the filter, \<^verbatim>\<open>NULL\<close> (here \<open>None\<close>) when no row does.
\<close>

definition select_max_finished :: "gameweek list \<Rightarrow> int option" where
  "select_max_finished gws =
     (case filter gw_finished gws of
        [] \<Rightarrow> None
      | r # rs \<Rightarrow> Some (fold max (map gw_id rs) (gw_id r)))"

text \<open>
  Lines 228 to 239. \<open>connect\<close> is an exception of \<^verbatim>\<open>sqlite3.connect\<close>, or an open connection
  to a store without a \<^verbatim>\<open>game_weeks\<close> table (the query raises), or one with its rows.
  \<^verbatim>\<open>x or 0\<close> is \<open>x\<close> when \<open>x\<close> is neither \<^verbatim>\<open>None\<close> nor zero.
\<close>

definition get_last_updated_gameweek :: "error + gameweek list option \<Rightarrow> int \<times> line list" where
  "get_last_updated_gameweek connect =
     (case connect of
        Inl e \<Rightarrow> (0, [ErrorLastGameweek e])
      | Inr None \<Rightarrow> (0, [ErrorLastGameweek DatabaseError])
      | Inr (Some gws) \<Rightarrow>
          (case select_max_finished gws of
             None \<Rightarrow> (0, [])
           | Some last_gw \<Rightarrow> (if last_gw \<noteq> 0 then last_gw else 0, [])))"

section \<open>Fetching: the remote response and its tables\<close>

text \<open>Python's truth value of a decoded response (\<^verbatim>\<open>if data:\<close>).\<close>

fun truthy :: "json \<Rightarrow> bool" where
  "truthy JNull = False"
| "truthy (JBool b) = b"
| "truthy (JInt n) = (n \<noteq> 0)"
| "truthy (JStr s) = (s \<noteq> [])"
| "truthy (JList xs) = (xs \<noteq> [])"
| "truthy (JObj kvs) = (kvs \<noteq> [])"

text \<open>
  \<^verbatim>\<open>key in data\<close>: a key of a dictionary, an element of a list, a substring of a string;
  \<^verbatim>\<open>TypeError\<close> on a value that is not a container.
\<close>

fun contains :: "string \<Rightarrow> json \<Rightarrow> error + bool" where
  "contains key (JObj kvs) = Inr (key \<in> set (map fst kvs))"
| "contains key (JList xs) = Inr (JStr key \<in> set xs)"
| "contains key (JStr s) = Inr (sublist key s)"
| "contains key JNull = Inl TypeError"
| "contains key (JBool b) = Inl TypeError"
| "contains key (JInt n) = Inl TypeError"

text \<open>
  \<^verbatim>\<open>data[key]\<close> with a string key: the value of a dictionary, \<^verbatim>\<open>KeyError\<close> when the key is
  missing, \<^verbatim>\<open>TypeError\<close> on everything that is not a dictionary.
\<close>

fun subscript :: "json \<Rightarrow> string \<Rightarrow> error + json" where
  "subscript (JObj kvs) key =
     (case map_of kvs key of None \<Rightarrow> Inl (KeyError key) | Some v \<Rightarrow> Inr v)"
| "subscript JNull key = Inl TypeError"
| "subscript (JBool b) key = Inl TypeError"
| "subscript (JInt n) key = Inl TypeError"
| "subscript (JStr s) key = Inl TypeError"
| "subscript (JList xs) key = Inl TypeError"

definition bind_err :: "error + 'a \<Rightarrow> ('a \<Rightarrow> error + 'b) \<Rightarrow> error + 'b" where
  "bind_err r f = (case r of Inl e \<Rightarrow> Inl e | Inr x \<Rightarrow> f x)"

text \<open>
  Lines 19 to 25, \<^verbatim>\<open>_make_request\<close>. A response carries its status code and the outcome of
  \<^verbatim>\<open>response.json()\<close>; \<open>got\<close> is the outcome of \<^verbatim>\<open>requests.get(url)\<close>.
\<close>

record response =
  status_code :: nat
  body :: "error + json"

definition make_request :: "error + response \<Rightarrow> (error + json option) \<times> line list" where
  "make_request got =
     (case got of
        Inl e \<Rightarrow> (Inl e, [])
      | Inr r \<Rightarrow>
          if status_code r = 200 then (map_sum id Some (body r), [])
          else (Inr None, [FailedToRetrieve (status_code r)]))"

text \<open>
  In the functions below \<open>DataFrame\<close> stands for the table constructor \<^verbatim>\<open>pd.DataFrame\<close> of the
  library, which builds a table from a decoded value or raises; \<open>data\<close> is the value that
  \<^verbatim>\<open>self._make_request(url)\<close> returned. In the source the three functions of lines 19 to 49
  stand inside the body of \<^verbatim>\<open>__init__\<close>. The definitions of this section are the bodies of
  the functions, from the value that the request returned; the calls through \<^verbatim>\<open>self\<close> that
  lead to them follow in the next section.

  Lines 34 to 49, \<^verbatim>\<open>get_fpl_data\<close>: the seven tables of the main data set, each built from
  one field of the response.
\<close>

definition fpl_tables :: "(string \<times> string) list" where
  "fpl_tables =
     [(''chips'', ''chips''), (''months'', ''phases''), (''football_players'', ''elements''),
      (''football_teams'', ''teams''), (''game_weeks'', ''events''),
      (''element_types'', ''element_types''), (''element_stats'', ''element_stats'')]"

fun build_tables ::
  "(json \<Rightarrow> error + dataframe) \<Rightarrow> json \<Rightarrow> (string \<times> string) list \<Rightarrow> error + tables" where
  "build_tables DataFrame d [] = Inr []"
| "build_tables DataFrame d ((name, key) # rest) =
     bind_err (subscript d key) (\<lambda>v.
     bind_err (DataFrame v) (\<lambda>df.
     bind_err (build_tables DataFrame d rest) (\<lambda>ts. Inr ((name, df) # ts))))"

definition get_fpl_data ::
  "(json \<Rightarrow> error + dataframe) \<Rightarrow> json option \<Rightarrow> error + tables option" where
  "get_fpl_data DataFrame data =
     (case data of
        None \<Rightarrow> Inr None
      | Some d \<Rightarrow>
          if truthy d then map_sum id Some (build_tables DataFrame d fpl_tables)
          else Inr None)"

text \<open>
  Lines 56 to 80, the body of \<^verbatim>\<open>get_manager_gameweek_data\<close> after the request of line 54.
  \<open>extract_table\<close> is the body of the \<^verbatim>\<open>try\<close> for one entry of \<^verbatim>\<open>data_mapping\<close>,
  \<open>extract_field\<close> adds the \<^verbatim>\<open>except\<close> clause.
\<close>

definition data_mapping :: "(string \<times> string) list" where
  "data_mapping =
     [(''active_chips'', ''active_chip''), (''automatic_subs'', ''automatic_subs''),
      (''event_history'', ''entry_history''), (''player_picks'', ''picks'')]"

definition extract_table ::
  "(json \<Rightarrow> error + dataframe) \<Rightarrow> json \<Rightarrow> string \<Rightarrow> string \<Rightarrow> error + dataframe option" where
  "extract_table DataFrame data df_key data_key =
     bind_err (contains data_key data) (\<lambda>present.
       if present then
         bind_err (subscript data data_key) (\<lambda>v.
           if v \<noteq> JNull then
             map_sum id Some
               (if df_key = ''event_history'' then DataFrame (JList [v])
                else
                  (case v of
                     JList xs \<Rightarrow> DataFrame v
                   | JObj kvs \<Rightarrow> DataFrame (JList [v])
                   | _ \<Rightarrow> DataFrame (JList [JList [v]])))
           else Inr None)
       else Inr None)"

definition extract_field ::
  "(json \<Rightarrow> error + dataframe) \<Rightarrow> json \<Rightarrow> string \<times> string \<Rightarrow> dataframe option \<times> line list" where
  "extract_field DataFrame data m =
     (case extract_table DataFrame data (fst m) (snd m) of
        Inl e \<Rightarrow> (None, [ErrorProcessing (fst m) e])
      | Inr t \<Rightarrow> (t, []))"

definition gameweek_tables ::
  "(json \<Rightarrow> error + dataframe) \<Rightarrow> json option
     \<Rightarrow> (string \<times> dataframe option) list option \<times> line list" where
  "gameweek_tables DataFrame data =
     (case data of
        None \<Rightarrow> (None, [])
      | Some d \<Rightarrow>
          if truthy d then
            (Some (map (\<lambda>m. (fst m, fst (extract_field DataFrame d m))) data_mapping),
             concat (map (\<lambda>m. snd (extract_field DataFrame d m)) data_mapping))
          else (None, []))"

text \<open>
  Lines 87 to 92, the body of \<^verbatim>\<open>get_league_standings\<close> after the request of line 85: no
  \<^verbatim>\<open>try\<close> stands around the construction of the two tables.
\<close>

definition league_tables ::
  "(json \<Rightarrow> error + dataframe) \<Rightarrow> json option \<Rightarrow> error + tables option" where
  "league_tables DataFrame data =
     (case data of
        None \<Rightarrow> Inr None
      | Some d \<Rightarrow>
          if truthy d then
            bind_err (subscript d ''league'') (\<lambda>league.
            bind_err (DataFrame (JList [league])) (\<lambda>league_info.
            bind_err (subscript d ''standings'') (\<lambda>st.
            bind_err (subscript st ''results'') (\<lambda>results.
            bind_err (DataFrame results) (\<lambda>standings.
              Inr (Some [(''league_info'', league_info), (''standings'', standings)]))))))
          else Inr None)"

section \<open>The class as written: names and attributes\<close>

text \<open>
  The class body binds eight names, at lines 7, 51, 82, 94, 107, 150, 195 and 228. The
  functions \<^verbatim>\<open>_make_request\<close>, \<^verbatim>\<open>_get_current_gameweek\<close> and \<^verbatim>\<open>get_fpl_data\<close> are defined at
  lines 19, 27 and 34 with the indentation of the body of \<^verbatim>\<open>__init__\<close>: they are local names
  of \<^verbatim>\<open>__init__\<close>, bound when their \<^verbatim>\<open>def\<close> statements run, and not attributes of the class.
\<close>

definition class_attributes :: "string list" where
  "class_attributes =
     [''__init__'', ''get_manager_gameweek_data'', ''get_league_standings'',
      ''get_manager_history'', ''collect_player_data_from_league'', ''check_for_updates'',
      ''sync_database'', ''get_last_updated_gameweek'']"

definition init_locals :: "string list" where
  "init_locals =
     [''self'', ''base_url'', ''_make_request'', ''_get_current_gameweek'', ''get_fpl_data'']"

definition module_names :: "string list" where
  "module_names =
     [''requests'', ''pd'', ''sqlite3'', ''Dict'', ''Optional'', ''List'', ''FPLDataCollection'']"

text \<open>
  Reading a bare name inside a function. A name that the function binds anywhere in its
  body is local to it, and reading it before it is bound raises \<^verbatim>\<open>UnboundLocalError\<close>; any
  other name is looked up among the names of the module, \<^verbatim>\<open>NameError\<close> when it is not there.
\<close>

definition read_name :: "string list \<Rightarrow> string list \<Rightarrow> string list \<Rightarrow> string \<Rightarrow> error option" where
  "read_name locals bound globals name =
     (if name \<in> set locals then
        (if name \<in> set bound then None else Some UnboundLocalError)
      else if name \<in> set globals then None
      else Some NameError)"

text \<open>
  Lines 7 to 17, \<^verbatim>\<open>__init__\<close>. Line 16 reads the bare name \<^verbatim>\<open>get_fpl_data\<close> when only the two
  parameters are bound: the three \<^verbatim>\<open>def\<close> statements stand below it. Were the name bound, the
  call would pass no argument to a function that takes \<^verbatim>\<open>self\<close>, a \<^verbatim>\<open>TypeError\<close>. The result
  is the exception that leaves the constructor, or the attributes of the finished instance.
\<close>

definition init :: "error + string list" where
  "init =
     (case read_name init_locals [''self'', ''base_url''] module_names ''get_fpl_data'' of
        Some e \<Rightarrow> Inl e
      | None \<Rightarrow> Inl TypeError)"

text \<open>
  A call \<^verbatim>\<open>self.name(...)\<close>: the name is looked up among the attributes of the class (an
  instance carries no function of its own: \<^verbatim>\<open>__init__\<close> sets \<^verbatim>\<open>base_url\<close> and \<^verbatim>\<open>endpoints\<close>
  only), \<^verbatim>\<open>AttributeError\<close> when it is not there. \<open>outcome\<close> is what the function does once
  it is found.
\<close>

definition self_call :: "string \<Rightarrow> error + 'a \<Rightarrow> error + 'a" where
  "self_call name outcome =
     (if name \<in> set class_attributes then outcome else Inl AttributeError)"

text \<open>
  The call \<^verbatim>\<open>self._make_request(url)\<close> of lines 37, 54, 85 and 97, where \<open>got\<close> is what
  \<^verbatim>\<open>requests.get(url)\<close> would answer, and the call \<^verbatim>\<open>self.get_fpl_data()\<close> of lines 160
  and 216.
\<close>

definition request_data :: "error + response \<Rightarrow> error + json option" where
  "request_data got = self_call ''_make_request'' (fst (make_request got))"

definition self_get_fpl_data ::
  "(json \<Rightarrow> error + dataframe) \<Rightarrow> error + response \<Rightarrow> error + tables option" where
  "self_get_fpl_data DataFrame got =
     self_call ''get_fpl_data'' (bind_err (request_data got) (get_fpl_data DataFrame))"

text \<open>
  Lines 51 to 80 and lines 82 to 92, the two operations whole: the request, outside any
  \<^verbatim>\<open>try\<close>, and then the body.
\<close>

definition get_manager_gameweek_data ::
  "(json \<Rightarrow> error + dataframe) \<Rightarrow> error + response
     \<Rightarrow> error + (string \<times> dataframe option) list option \<times> line list" where
  "get_manager_gameweek_data DataFrame got =
     bind_err (request_data got) (\<lambda>data. Inr (gameweek_tables DataFrame data))"

definition get_league_standings ::
  "(json \<Rightarrow> error + dataframe) \<Rightarrow> error + response \<Rightarrow> error + tables option" where
  "get_league_standings DataFrame got =
     bind_err (request_data got) (league_tables DataFrame)"

section \<open>A table constructor for the examples\<close>

text \<open>
  Modelled from the spec: the Table Normalizer of section 2 (rows are records, columns are
  fields), which the source takes from the library as \<^verbatim>\<open>pd.DataFrame\<close>. A list of records
  becomes a table with one row per record and one column per field, in the order the fields
  first appear; a field that a record lacks is an empty cell. Every other value is refused.
  The properties below hold for every constructor; this one instantiates them.
\<close>

fun fields :: "json \<Rightarrow> (string \<times> json) list option" where
  "fields (JObj kvs) = Some kvs"
| "fields JNull = None"
| "fields (JBool b) = None"
| "fields (JInt n) = None"
| "fields (JStr s) = None"
| "fields (JList xs) = None"

definition labels_of :: "(string \<times> json) list list \<Rightarrow> string list" where
  "labels_of recs =
     fold (\<lambda>k acc. if k \<in> set acc then acc else acc @ [k]) (concat (map (map fst) recs)) []"

definition record_row :: "string list \<Rightarrow> (string \<times> json) list \<Rightarrow> json list" where
  "record_row cols kvs = map (\<lambda>c. case map_of kvs c of None \<Rightarrow> JNull | Some v \<Rightarrow> v) cols"

definition records_frame :: "json \<Rightarrow> error + dataframe" where
  "records_frame v =
     (case v of
        JList recs \<Rightarrow>
          if list_all (\<lambda>r. fields r \<noteq> None) recs then
            (let kvss = map (\<lambda>r. case fields r of None \<Rightarrow> [] | Some kvs \<Rightarrow> kvs) recs;
                 cols = labels_of kvss
             in Inr \<lparr>df_columns = cols, df_rows = map (record_row cols) kvss\<rparr>)
          else Inl ValueError
      | _ \<Rightarrow> Inl ValueError)"

section \<open>Example data\<close>

text \<open>
  A manager's gameweek as the remote source answers it: no active chip, no automatic
  substitutions, the event summary and two picks. The table of the two picks.
\<close>

definition picks_response :: json where
  "picks_response =
     JObj [(''active_chip'', JNull),
           (''automatic_subs'', JList []),
           (''entry_history'', JObj [(''event'', JInt 1), (''points'', JInt 57)]),
           (''picks'', JList [JObj [(''element'', JInt 10), (''position'', JInt 1)],
                              JObj [(''element'', JInt 22), (''position'', JInt 2)]])]"

definition picks_table :: dataframe where
  "picks_table =
     \<lparr>df_columns = [''element'', ''position''],
      df_rows = [[JInt 10, JInt 1], [JInt 22, JInt 2]]\<rparr>"

text \<open>A response with status 200 that carries none of the expected fields.\<close>

definition not_found_response :: json where
  "not_found_response = JObj [(''detail'', JStr ''Not found.'')]"

text \<open>A players table without the \<^verbatim>\<open>total_points\<close> column.\<close>

definition players_without_points :: dataframe where
  "players_without_points =
     \<lparr>df_columns = [''id'', ''minutes''],
      df_rows = [[JInt 1, JInt 90], [JInt 2, JInt 45]]\<rparr>"

text \<open>The two chips of the answer below, as a table.\<close>

definition chips_table :: dataframe where
  "chips_table =
     \<lparr>df_columns = [''id'', ''name''],
      df_rows = [[JInt 1, JStr ''wildcard''], [JInt 2, JStr ''bboost'']]\<rparr>"

text \<open>
  Twenty teams as persisted; the one team of the answer below, as a table.
\<close>

definition teams_persisted :: dataframe where
  "teams_persisted =
     \<lparr>df_columns = [''id'', ''points''],
      df_rows = map (\<lambda>i. [JInt (int i), JInt 0]) [1..<21]\<rparr>"

definition teams_fetched :: dataframe where
  "teams_fetched = \<lparr>df_columns = [''id'', ''points''], df_rows = [[JInt 1, JInt 3]]\<rparr>"

text \<open>
  Two players as persisted, and the two players of the answer below with another
  \<^verbatim>\<open>total_points\<close> cell.
\<close>

definition players_persisted :: dataframe where
  "players_persisted =
     \<lparr>df_columns = [''id'', ''minutes'', ''total_points''],
      df_rows = [[JInt 1, JInt 90, JInt 6], [JInt 2, JInt 45, JInt 2]]\<rparr>"

definition players_fetched :: dataframe where
  "players_fetched =
     \<lparr>df_columns = [''id'', ''minutes'', ''total_points''],
      df_rows = [[JInt 1, JInt 90, JInt 6], [JInt 2, JInt 45, JInt 5]]\<rparr>"

text \<open>
  Two gameweeks as the store returns them (flags stored as 1 and 0), and the two gameweeks of
  the answer below, the second one finished by now.
\<close>

definition game_weeks_persisted :: dataframe where
  "game_weeks_persisted =
     \<lparr>df_columns = [''id'', ''finished''],
      df_rows = [[JInt 5, JInt 1], [JInt 6, JInt 0]]\<rparr>"

definition game_weeks_fetched :: dataframe where
  "game_weeks_fetched =
     \<lparr>df_columns = [''id'', ''finished''],
      df_rows = [[JInt 5, JBool True], [JInt 6, JBool True]]\<rparr>"

text \<open>
  An answer of the remote source to the request for the main data set, with status 200, and
  the seven tables that the body of \<^verbatim>\<open>get_fpl_data\<close> makes of it.
\<close>

definition main_response :: json where
  "main_response =
     JObj [(''chips'', JList [JObj [(''id'', JInt 1), (''name'', JStr ''wildcard'')],
                              JObj [(''id'', JInt 2), (''name'', JStr ''bboost'')]]),
           (''phases'', JList []),
           (''elements'',
              JList [JObj [(''id'', JInt 1), (''minutes'', JInt 90), (''total_points'', JInt 6)],
                     JObj [(''id'', JInt 2), (''minutes'', JInt 45), (''total_points'', JInt 5)]]),
           (''teams'', JList [JObj [(''id'', JInt 1), (''points'', JInt 3)]]),
           (''events'', JList [JObj [(''id'', JInt 5), (''finished'', JBool True)],
                               JObj [(''id'', JInt 6), (''finished'', JBool True)]]),
           (''element_types'', JList []),
           (''element_stats'', JList [])]"

definition main_answer :: "error + response" where
  "main_answer = Inr \<lparr>status_code = 200, body = Inr main_response\<rparr>"

definition empty_table :: dataframe where
  "empty_table = \<lparr>df_columns = [], df_rows = []\<rparr>"

definition main_tables :: tables where
  "main_tables =
     [(''chips'', chips_table), (''months'', empty_table),
      (''football_players'', players_fetched), (''football_teams'', teams_fetched),
      (''game_weeks'', game_weeks_fetched), (''element_types'', empty_table),
      (''element_stats'', empty_table)]"

text \<open>Persisted gameweek rows: gameweek 5 finished, gameweek 6 not; and gameweek 6 alone.\<close>

definition scenario_game_weeks :: "gameweek list" where
  "scenario_game_weeks =
     [\<lparr>gw_id = 5, gw_finished = True\<rparr>, \<lparr>gw_id = 6, gw_finished = False\<rparr>]"

definition unfinished_game_weeks :: "gameweek list" where
  "unfinished_game_weeks = [\<lparr>gw_id = 6, gw_finished = False\<rparr>]"

section \<open>Properties of the loop\<close>

text \<open>A verdict set that is not empty comes from a loop that ran to its end.\<close>

lemma check_for_updates_nonempty:
  assumes "fst (check_for_updates connect fetch) \<noteq> []"
  shows "\<exists>conn api_data qs. connect = Inr conn \<and> fetch = Inr (Some api_data)
           \<and> check_tables conn api_data [] [] = (Inr (fst (check_for_updates connect fetch)), qs)"
proof -
  from assms obtain conn where c: "connect = Inr conn"
    by (cases connect) (auto simp: check_for_updates_def)
  from assms c obtain o_data where f: "fetch = Inr o_data"
    by (cases fetch) (auto simp: check_for_updates_def)
  from assms c f obtain api_data where a: "o_data = Some api_data"
    by (cases o_data) (auto simp: check_for_updates_def)
  from assms c f a obtain t ts where ne: "api_data = t # ts"
    by (cases api_data) (auto simp: check_for_updates_def)
  obtain r qs where run: "check_tables conn (t # ts) [] [] = (r, qs)"
    by (cases "check_tables conn (t # ts) [] []")
  from assms c f a ne run obtain u where r: "r = Inr u"
    by (cases r) (auto simp: check_for_updates_def)
  from c f a ne run r have "fst (check_for_updates connect fetch) = u"
    by (simp add: check_for_updates_def)
  with c f a ne run r show ?thesis by auto
qed

section \<open>Properties of the helpers\<close>

lemma select_max_finished_Max: "filter gw_finished gws \<noteq> [] \<Longrightarrow>
   select_max_finished gws = Some (Max (gw_id ` {r \<in> set gws. gw_finished r}))"
proof -
  assume "filter gw_finished gws \<noteq> []"
  then obtain r rs where f: "filter gw_finished gws = r # rs" by (cases "filter gw_finished gws") auto
  have "set (r # rs) = {r \<in> set gws. gw_finished r}" unfolding f[symmetric] by auto
  then have "gw_id ` {r \<in> set gws. gw_finished r} = set (gw_id r # map gw_id rs)" by (metis list.simps(9) set_map)
  with f show ?thesis by (simp add: select_max_finished_def Max.set_eq_fold del: set_simps)
qed

lemma sync_database_persisted:
  "persisted (sync_database connect fetch refetch specific_tables) = connect"
  by (simp add: sync_database_def split: prod.splits list.splits sum.splits option.splits)

lemma check_tables_fail:
  "(n, df) \<in> set tabs \<Longrightarrow> verdict conn n df = Inl e
     \<Longrightarrow> \<exists>e' qs'. check_tables conn tabs acc qs = (Inl e', qs')"
proof (induction tabs arbitrary: acc qs)
  case Nil
  then show ?case by simp
next
  case (Cons t tabs)
  obtain k d where t: "t = (k, d)" by (cases t)
  show ?case
  proof (cases "map_of conn k")
    case None
    with Cons.prems t have "(n, df) \<in> set tabs" by (auto simp: verdict_def)
    from Cons.IH[OF this Cons.prems(2)] None t show ?thesis by simp
  next
    case (Some ex)
    show ?thesis
    proof (cases "compare_table k d ex")
      case (Inl e2)
      with Some t show ?thesis by simp
    next
      case (Inr v)
      with Cons.prems t Some have "(n, df) \<in> set tabs" by (auto simp: verdict_def)
      from Cons.IH[OF this Cons.prems(2)] Some Inr t show ?thesis by simp
    qed
  qed
qed

lemma check_tables_keys:
  "check_tables conn tabs acc qs = (Inr u, qs') \<Longrightarrow> distinct (map fst tabs)
     \<Longrightarrow> set (map fst acc) \<inter> set (map fst tabs) = {}
     \<Longrightarrow> map fst u = map fst acc @ map fst tabs"
proof (induction tabs arbitrary: acc qs)
  case Nil
  then show ?case by simp
next
  case (Cons t tabs)
  obtain k d where t: "t = (k, d)" by (cases t)
  from Cons.prems(2) t have dist: "distinct (map fst tabs)" and knot: "k \<notin> set (map fst tabs)"
    by auto
  from Cons.prems(3) t have kacc: "k \<notin> set (map fst acc)"
    and disj: "set (map fst acc) \<inter> set (map fst tabs) = {}" by auto
  have keys: "map fst (AList.update k v acc) = map fst acc @ [k]" for v
    using kacc by (simp add: update_keys)
  have disj': "set (map fst (AList.update k v acc)) \<inter> set (map fst tabs) = {}" for v
    using disj knot by (simp add: keys)
  show ?case
  proof (cases "map_of conn k")
    case None
    with Cons.prems(1) t
    have "check_tables conn tabs (AList.update k True acc) (qs @ [TableExists k]) = (Inr u, qs')"
      by simp
    from Cons.IH[OF this dist disj'] t show ?thesis by (simp add: keys)
  next
    case (Some ex)
    show ?thesis
    proof (cases "compare_table k d ex")
      case (Inl e)
      with Cons.prems(1) t Some show ?thesis by simp
    next
      case (Inr v)
      with Cons.prems(1) t Some
      have "check_tables conn tabs (AList.update k v acc)
              (qs @ [TableExists k, SelectAll k]) = (Inr u, qs')"
        by simp
      from Cons.IH[OF this dist disj'] t show ?thesis by (simp add: keys)
    qed
  qed
qed

section \<open>Properties of the class as written\<close>

lemma request_data_raises: "request_data got = Inl AttributeError"
  by (simp add: request_data_def self_call_def class_attributes_def)

lemma self_get_fpl_data_raises: "self_get_fpl_data DataFrame got = Inl AttributeError"
  by (simp add: self_get_fpl_data_def self_call_def class_attributes_def)

lemma check_for_updates_as_written:
  "fst (check_for_updates connect (self_get_fpl_data DataFrame got)) = []"
  by (cases connect) (simp_all add: self_get_fpl_data_raises check_for_updates_def)

lemma sync_database_as_written:
  "sync_database (Inr conn) (self_get_fpl_data DataFrame got) refetch specific_tables
     = \<lparr>raised = None, persisted = Inr conn,
        printed = [ErrorCheckingForUpdates AttributeError, NoUpdatesAvailable],
        update_dict = []\<rparr>"
  by (simp add: sync_database_def check_for_updates_def self_get_fpl_data_raises)

lemma main_tables_fetched:
  "get_fpl_data records_frame (Some main_response) = Inr (Some main_tables)"
  by (simp add: get_fpl_data_def main_response_def fpl_tables_def bind_err_def
      records_frame_def labels_of_def record_row_def main_tables_def chips_table_def
      empty_table_def players_fetched_def teams_fetched_def game_weeks_fetched_def)

section \<open>Claims about \<^verbatim>\<open>check_for_updates\<close>\<close>

text \<open>
  C5. The claim asks that a fetched table which the store does not hold gets the verdict
  true. As the class is written, the call \<^verbatim>\<open>self.get_fpl_data()\<close> of line 160 raises
  \<^verbatim>\<open>AttributeError\<close>; the operation prints the error and returns the empty verdict set, so
  \<^verbatim>\<open>chips\<close>, absent from an empty store, gets no verdict. Handed the tables of the same
  answer, lines 161 to 189 record true for it.
\<close>

theorem absent_table_gets_no_verdict:
  "check_for_updates (Inr []) (self_get_fpl_data records_frame main_answer)
      = ([], [ErrorCheckingForUpdates AttributeError], [])
   \<and> map_of ([] :: store) ''chips'' = None
   \<and> map_of (fst (check_for_updates (Inr []) (Inr (Some main_tables)))) ''chips'' = Some True"
  by (simp add: self_get_fpl_data_raises check_for_updates_def main_tables_def)

text \<open>
  C2. The claim asks that \<^verbatim>\<open>game_weeks\<close> gets the verdict true exactly when the fetched table
  is not identical, cell by cell, to the persisted one. As the class is written, the call
  \<^verbatim>\<open>self.get_fpl_data()\<close> of line 160 raises \<^verbatim>\<open>AttributeError\<close> and the operation returns the
  empty verdict set: \<^verbatim>\<open>game_weeks\<close> gets no verdict although the fetched table differs from
  the persisted one. Handed the tables of the same answer, lines 161 to 189 record true.
\<close>

theorem game_weeks_gets_no_verdict:
  "check_for_updates (Inr [(''game_weeks'', game_weeks_persisted)])
        (self_get_fpl_data records_frame main_answer)
      = ([], [ErrorCheckingForUpdates AttributeError], [])
   \<and> \<not> df_equals game_weeks_fetched game_weeks_persisted
   \<and> map_of (fst (check_for_updates (Inr [(''game_weeks'', game_weeks_persisted)])
        (Inr (Some main_tables)))) ''game_weeks'' = Some True"
  by (simp add: self_get_fpl_data_raises check_for_updates_def main_tables_def
      compare_table_def df_equals_def getitem_def series_equals_def shape0_def
      game_weeks_fetched_def game_weeks_persisted_def)

text \<open>
  C3. The claim asks that \<^verbatim>\<open>football_players\<close> gets the verdict true exactly when the
  \<^verbatim>\<open>total_points\<close> columns differ. As the class is written, the call
  \<^verbatim>\<open>self.get_fpl_data()\<close> of line 160 raises \<^verbatim>\<open>AttributeError\<close> and the operation returns the
  empty verdict set: \<^verbatim>\<open>football_players\<close> gets no verdict although the two columns differ.
  Handed the tables of the same answer, lines 161 to 189 record true.
\<close>

theorem football_players_gets_no_verdict:
  "check_for_updates (Inr [(''football_players'', players_persisted)])
        (self_get_fpl_data records_frame main_answer)
      = ([], [ErrorCheckingForUpdates AttributeError], [])
   \<and> getitem players_fetched ''total_points'' = Inr [JInt 6, JInt 5]
   \<and> getitem players_persisted ''total_points'' = Inr [JInt 6, JInt 2]
   \<and> map_of (fst (check_for_updates (Inr [(''football_players'', players_persisted)])
        (Inr (Some main_tables)))) ''football_players'' = Some True"
  by (simp add: self_get_fpl_data_raises check_for_updates_def main_tables_def
      compare_table_def getitem_def series_equals_def cell_def shape0_def
      players_fetched_def players_persisted_def)

text \<open>
  C4. The claim asks that a table other than \<^verbatim>\<open>game_weeks\<close> and \<^verbatim>\<open>football_players\<close> which
  the store holds gets the verdict true exactly when the row counts differ. As the class is
  written, the call \<^verbatim>\<open>self.get_fpl_data()\<close> of line 160 raises \<^verbatim>\<open>AttributeError\<close> and the
  operation returns the empty verdict set: \<^verbatim>\<open>football_teams\<close> gets no verdict although
  twenty rows are persisted and one is fetched. Handed the tables of the same answer, lines
  161 to 189 record true.
\<close>

theorem football_teams_gets_no_verdict:
  "check_for_updates (Inr [(''football_teams'', teams_persisted)])
        (self_get_fpl_data records_frame main_answer)
      = ([], [ErrorCheckingForUpdates AttributeError], [])
   \<and> shape0 teams_persisted = 20 \<and> shape0 teams_fetched = 1
   \<and> map_of (fst (check_for_updates (Inr [(''football_teams'', teams_persisted)])
        (Inr (Some main_tables)))) ''football_teams'' = Some True"
  by (simp add: self_get_fpl_data_raises check_for_updates_def main_tables_def
      compare_table_def shape0_def teams_persisted_def teams_fetched_def)

text \<open>
  C6. A failure in any step of \<^verbatim>\<open>check_for_updates\<close> gives the empty verdict set, never a
  part of one: an unreachable store, a fetch that raises (malformed data among the causes),
  a fetch that returns nothing, a table whose comparison raises (a missing column). A verdict
  set that is not empty has a verdict for every fetched table. When the fetch fails, no
  query has been sent to the store.
\<close>

theorem check_for_updates_failure_empty:
  "check_for_updates (Inl e) fetch = ([], [ErrorCheckingForUpdates e], [])
   \<and> check_for_updates (Inr conn) (Inl e) = ([], [ErrorCheckingForUpdates e], [])
   \<and> check_for_updates (Inr conn) (Inr None) = ([], [], [])
   \<and> ((n, df) \<in> set api_data \<and> verdict conn n df = Inl e
        \<longrightarrow> fst (check_for_updates (Inr conn) (Inr (Some api_data))) = [])
   \<and> (distinct (map fst api_data)
        \<longrightarrow> fst (check_for_updates (Inr conn) (Inr (Some api_data))) = []
          \<or> map fst (fst (check_for_updates (Inr conn) (Inr (Some api_data)))) = map fst api_data)"
proof -
  have fail: "fst (check_for_updates (Inr conn) (Inr (Some api_data))) = []"
    if m: "(n, df) \<in> set api_data" and v: "verdict conn n df = Inl e"
  proof (rule ccontr)
    assume ne: "fst (check_for_updates (Inr conn) (Inr (Some api_data))) \<noteq> []"
    from check_for_updates_nonempty[OF ne] obtain qs where
      "check_tables conn api_data [] [] =
         (Inr (fst (check_for_updates (Inr conn) (Inr (Some api_data)))), qs)"
      by auto
    with check_tables_fail[OF m v, of "[]" "[]"] show False by auto
  qed
  have whole: "fst (check_for_updates (Inr conn) (Inr (Some api_data))) = []
      \<or> map fst (fst (check_for_updates (Inr conn) (Inr (Some api_data)))) = map fst api_data"
    if d: "distinct (map fst api_data)"
  proof (cases "fst (check_for_updates (Inr conn) (Inr (Some api_data))) = []")
    case True
    then show ?thesis by simp
  next
    case False
    from check_for_updates_nonempty[OF False] obtain qs where
      "check_tables conn api_data [] [] =
         (Inr (fst (check_for_updates (Inr conn) (Inr (Some api_data)))), qs)"
      by auto
    from check_tables_keys[OF this d] show ?thesis by simp
  qed
  have a: "check_for_updates (Inl e) fetch = ([], [ErrorCheckingForUpdates e], [])"
    by (simp add: check_for_updates_def)
  have b: "check_for_updates (Inr conn) (Inl e) = ([], [ErrorCheckingForUpdates e], [])"
    by (simp add: check_for_updates_def)
  have c: "check_for_updates (Inr conn) (Inr None) = ([], [], [])"
    by (simp add: check_for_updates_def)
  from a b c fail whole show ?thesis by blast
qed

theorem check_for_updates_failure_empty_witness:
  "get_fpl_data records_frame (Some not_found_response) = Inl (KeyError ''chips'')
   \<and> check_for_updates (Inr [(''football_players'', players_persisted)])
        (get_fpl_data records_frame (Some not_found_response))
      = ([], [ErrorCheckingForUpdates (KeyError ''chips'')], [])
   \<and> (''football_players'', players_without_points)
        \<in> set [(''chips'', chips_table), (''football_players'', players_without_points)]
   \<and> verdict [(''football_players'', players_persisted)] ''football_players''
        players_without_points = Inl (KeyError ''total_points'')
   \<and> fst (check_for_updates (Inr [(''football_players'', players_persisted)])
        (Inr (Some [(''chips'', chips_table), (''football_players'', players_without_points)])))
      = []
   \<and> distinct (map fst [(''chips'', chips_table)])
   \<and> map fst (fst (check_for_updates (Inr [(''football_players'', players_persisted)])
        (Inr (Some [(''chips'', chips_table)])))) = [''chips'']"
proof -
  have g: "get_fpl_data records_frame (Some not_found_response) = Inl (KeyError ''chips'')"
    by (simp add: get_fpl_data_def not_found_response_def fpl_tables_def bind_err_def)
  have m: "(''football_players'', players_without_points)
        \<in> set [(''chips'', chips_table), (''football_players'', players_without_points)]"
    by simp
  have v: "verdict [(''football_players'', players_persisted)] ''football_players''
        players_without_points = Inl (KeyError ''total_points'')"
    by (simp add: verdict_def compare_table_def getitem_def players_without_points_def)
  have d: "distinct (map fst [(''chips'', chips_table)])" by simp
  have ne: "fst (check_for_updates (Inr [(''football_players'', players_persisted)])
        (Inr (Some [(''chips'', chips_table)]))) \<noteq> []"
    by (simp add: check_for_updates_def)
  note t1 = check_for_updates_failure_empty[of "KeyError ''chips''" "Inr None"
      "[(''football_players'', players_persisted)]" "''football_players''"
      players_without_points
      "[(''chips'', chips_table), (''football_players'', players_without_points)]"]
  note t2 = check_for_updates_failure_empty[of "KeyError ''total_points''" "Inr None"
      "[(''football_players'', players_persisted)]" "''football_players''"
      players_without_points
      "[(''chips'', chips_table), (''football_players'', players_without_points)]"]
  note t3 = check_for_updates_failure_empty[of "KeyError ''chips''" "Inr None"
      "[(''football_players'', players_persisted)]" "''chips''" chips_table
      "[(''chips'', chips_table)]"]
  from t1 g have r1: "check_for_updates (Inr [(''football_players'', players_persisted)])
        (get_fpl_data records_frame (Some not_found_response))
      = ([], [ErrorCheckingForUpdates (KeyError ''chips'')], [])"
    by simp
  from t2 m v have r2: "fst (check_for_updates (Inr [(''football_players'', players_persisted)])
        (Inr (Some [(''chips'', chips_table), (''football_players'', players_without_points)])))
      = []"
    by blast
  from t3 d ne have r3: "map fst (fst (check_for_updates (Inr [(''football_players'', players_persisted)])
        (Inr (Some [(''chips'', chips_table)])))) = [''chips'']"
    by simp
  from g r1 m v r2 d r3 show ?thesis by blast
qed

section \<open>Claims about \<^verbatim>\<open>get_last_updated_gameweek\<close>\<close>

text \<open>
  C7. \<^verbatim>\<open>get_last_updated_gameweek\<close> returns the largest identifier among the persisted
  gameweeks flagged finished (5 for gameweek 5 finished and gameweek 6 not), and 0 when no
  gameweek is flagged finished, when the store cannot be reached and when the query fails.
\<close>

theorem last_updated_gameweek:
  "(filter gw_finished gws \<noteq> [] \<longrightarrow>
      get_last_updated_gameweek (Inr (Some gws))
        = (Max (gw_id ` {r \<in> set gws. gw_finished r}), []))
   \<and> (filter gw_finished gws = [] \<longrightarrow> get_last_updated_gameweek (Inr (Some gws)) = (0, []))
   \<and> get_last_updated_gameweek (Inl e) = (0, [ErrorLastGameweek e])
   \<and> get_last_updated_gameweek (Inr None) = (0, [ErrorLastGameweek DatabaseError])"
proof -
  have a: "get_last_updated_gameweek (Inr (Some gws))
        = (Max (gw_id ` {r \<in> set gws. gw_finished r}), [])"
    if "filter gw_finished gws \<noteq> []"
    using select_max_finished_Max[OF that] by (simp add: get_last_updated_gameweek_def)
  have b: "get_last_updated_gameweek (Inr (Some gws)) = (0, [])"
    if "filter gw_finished gws = []"
    using that by (simp add: get_last_updated_gameweek_def select_max_finished_def)
  show ?thesis using a b by (simp add: get_last_updated_gameweek_def)
qed

theorem last_updated_gameweek_witness:
  "filter gw_finished scenario_game_weeks \<noteq> []
   \<and> get_last_updated_gameweek (Inr (Some scenario_game_weeks))
        = (Max (gw_id ` {r \<in> set scenario_game_weeks. gw_finished r}), [])
   \<and> get_last_updated_gameweek (Inr (Some scenario_game_weeks)) = (5, [])
   \<and> filter gw_finished unfinished_game_weeks = []
   \<and> get_last_updated_gameweek (Inr (Some unfinished_game_weeks)) = (0, [])"
proof -
  have h: "filter gw_finished scenario_game_weeks \<noteq> []"
    by (simp add: scenario_game_weeks_def)
  have v: "get_last_updated_gameweek (Inr (Some scenario_game_weeks)) = (5, [])"
    by (simp add: get_last_updated_gameweek_def select_max_finished_def scenario_game_weeks_def)
  have u: "filter gw_finished unfinished_game_weeks = []"
    by (simp add: unfinished_game_weeks_def)
  from last_updated_gameweek[of scenario_game_weeks] h
  have m: "get_last_updated_gameweek (Inr (Some scenario_game_weeks))
        = (Max (gw_id ` {r \<in> set scenario_game_weeks. gw_finished r}), [])"
    by blast
  from last_updated_gameweek[of unfinished_game_weeks] u
  have z: "get_last_updated_gameweek (Inr (Some unfinished_game_weeks)) = (0, [])"
    by blast
  from h m v u z show ?thesis by blast
qed

section \<open>Claims about \<^verbatim>\<open>sync_database\<close>\<close>




section \<open>Claims about the fetch operations and the constructor\<close>

text \<open>
  C8. The claim asks that a manager's gameweek with a missing or null field yields an absent
  sub-table for that field and a table for a list such as the picks, and that the operation
  does not fail. As the class is written, the request of line 54, \<^verbatim>\<open>self._make_request(url)\<close>,
  raises \<^verbatim>\<open>AttributeError\<close> outside any \<^verbatim>\<open>try\<close>: the operation fails on every call. Handed
  the decoded answer, lines 56 to 80 give the absent \<^verbatim>\<open>active_chips\<close> and the picks table of
  two rows; handed the empty answer \<^verbatim>\<open>{}\<close>, they give no result at all.
\<close>

theorem manager_gameweek_raises:
  "get_manager_gameweek_data records_frame
       (Inr \<lparr>status_code = 200, body = Inr picks_response\<rparr>) = Inl AttributeError
   \<and> gameweek_tables records_frame (Some picks_response)
      = (Some [(''active_chips'', None), (''automatic_subs'', Some empty_table),
               (''event_history'',
                Some \<lparr>df_columns = [''event'', ''points''], df_rows = [[JInt 1, JInt 57]]\<rparr>),
               (''player_picks'', Some picks_table)], [])
   \<and> shape0 picks_table = 2
   \<and> gameweek_tables records_frame (Some (JObj [])) = (None, [])"
  by (simp add: get_manager_gameweek_data_def request_data_raises bind_err_def
      gameweek_tables_def picks_response_def data_mapping_def extract_field_def
      extract_table_def records_frame_def labels_of_def record_row_def picks_table_def
      empty_table_def shape0_def)

text \<open>
  C9. The claim asks that no exception leaves a public operation or the construction of the
  component. As the class is written, construction raises \<^verbatim>\<open>UnboundLocalError\<close> at line 16,
  and \<^verbatim>\<open>get_league_standings\<close> raises \<^verbatim>\<open>AttributeError\<close> at line 85, whatever the remote
  source would answer; both leave the operation.
\<close>

theorem construction_raises:
  "init = Inl UnboundLocalError
   \<and> get_league_standings records_frame
       (Inr \<lparr>status_code = 200, body = Inr not_found_response\<rparr>) = Inl AttributeError
   \<and> get_manager_gameweek_data records_frame
       (Inr \<lparr>status_code = 404, body = Inr not_found_response\<rparr>) = Inl AttributeError"
  by (simp add: init_def read_name_def init_locals_def get_league_standings_def
      get_manager_gameweek_data_def request_data_raises bind_err_def)

end
